theory Spec2Isabelle
  imports Main
begin

section \<open>JavaScript strings and values\<close>

text \<open>
  Strings of \<^verbatim>\<open>static/script.js\<close> are modelled as \<^typ>\<open>string\<close>, except the text of the
  question field (see \<open>trim\<close> below). A value that the
  script reads from a JSON object and that may be missing is a \<^typ>\<open>string option\<close>:
  \<^term>\<open>None\<close> is JavaScript's \<^verbatim>\<open>undefined\<close>.

  \<^verbatim>\<open>toLowerCase\<close> is modelled on the ASCII letters; every other character is kept. The
  only use of it compares the result with the words pdf, doc, docx and txt, and no
  character outside A-Z lower-cases to one of their letters.
\<close>

definition toLowerCase_char :: "char \<Rightarrow> char" where
  "toLowerCase_char c =
     (case map_of (zip ''ABCDEFGHIJKLMNOPQRSTUVWXYZ'' ''abcdefghijklmnopqrstuvwxyz'') c of
        Some l \<Rightarrow> l
      | None \<Rightarrow> c)"

definition toLowerCase :: "string \<Rightarrow> string" where
  "toLowerCase s = map toLowerCase_char s"

text \<open>\<^verbatim>\<open>name.split('.')\<close>: the pieces between the separators; never an empty array.\<close>

fun split_on :: "char \<Rightarrow> string \<Rightarrow> string list" where
  "split_on sep [] = [[]]"
| "split_on sep (c # cs) =
     (if c = sep then [] # split_on sep cs
      else (case split_on sep cs of
              [] \<Rightarrow> [[c]]
            | w # ws \<Rightarrow> (c # w) # ws))"

text \<open>\<^verbatim>\<open>Array.prototype.pop\<close>, as a value: the last element, \<^verbatim>\<open>undefined\<close> on the empty array.\<close>

definition pop :: "'a list \<Rightarrow> 'a option" where
  "pop xs = (if xs = [] then None else Some (last xs))"

text \<open>
  The text of the question field is trimmed, and \<^verbatim>\<open>String.prototype.trim\<close> removes white
  space that is not ASCII. That text is therefore modelled as the list of its UTF-16 code
  units. \<^verbatim>\<open>trim\<close> removes, from both ends, the WhiteSpace and LineTerminator code points of
  ECMAScript: tab, line feed, vertical tab, form feed, carriage return, space, U+00A0,
  U+1680, U+2000 to U+200A, U+2028, U+2029, U+202F, U+205F, U+3000 and U+FEFF. Each of
  them is one code unit, and no half of a surrogate pair is among them, so trimming code
  units is trimming code points.
\<close>

type_synonym code_units = "nat list"

definition is_whitespace :: "nat \<Rightarrow> bool" where
  "is_whitespace c =
     (c \<in> set [0x0009, 0x000A, 0x000B, 0x000C, 0x000D, 0x0020, 0x00A0, 0x1680,
                0x2000, 0x2001, 0x2002, 0x2003, 0x2004, 0x2005, 0x2006, 0x2007, 0x2008,
                0x2009, 0x200A, 0x2028, 0x2029, 0x202F, 0x205F, 0x3000, 0xFEFF])"

definition trim :: "code_units \<Rightarrow> code_units" where
  "trim s = rev (dropWhile is_whitespace (rev (dropWhile is_whitespace s)))"

text \<open>Decimal digits of a number, as a template literal prints it.\<close>

definition digit_char :: "nat \<Rightarrow> char" where
  "digit_char d = ''0123456789'' ! d"

fun string_of_nat :: "nat \<Rightarrow> string" where
  "string_of_nat n =
     (if n < 10 then [digit_char n]
      else string_of_nat (n div 10) @ [digit_char (n mod 10)])"

declare string_of_nat.simps [simp del]

text \<open>
  Truthiness of a string-or-undefined value: \<^verbatim>\<open>undefined\<close> and the empty string are falsy.
  \<open>js_or a d\<close> is \<^verbatim>\<open>a || d\<close>, and \<open>js_str a\<close> is what \<^verbatim>\<open>${a}\<close> prints.
\<close>

fun truthy :: "string option \<Rightarrow> bool" where
  "truthy None = False"
| "truthy (Some v) = (v \<noteq> [])"

fun js_or :: "string option \<Rightarrow> string \<Rightarrow> string" where
  "js_or None d = d"
| "js_or (Some v) d = (if v = [] then d else v)"

fun js_str :: "string option \<Rightarrow> string" where
  "js_str None = ''undefined''"
| "js_str (Some v) = v"

section \<open>Data model\<close>

text \<open>A \<^verbatim>\<open>File\<close> object: its name, its MIME type as the browser reports it, its size.\<close>

record file_obj =
  file_name :: string
  file_type :: string
  file_size :: nat

text \<open>
  The JSON bodies of the two endpoints, with the fields the script reads
  (\<^verbatim>\<open>summary\<close>, \<^verbatim>\<open>clauses\<close>, \<^verbatim>\<open>document_type\<close>, \<^verbatim>\<open>session_key\<close>, \<^verbatim>\<open>error\<close>; \<^verbatim>\<open>answer\<close>,
  \<^verbatim>\<open>error\<close>). A body is a JSON object whose fields, when present, are strings (a list
  of clause objects for \<^verbatim>\<open>clauses\<close>).
\<close>

record clause =
  clause_title :: "string option"
  clause_original :: "string option"
  clause_simplified :: "string option"
  clause_explanation :: "string option"

record analysis_result =
  res_summary :: "string option"
  res_clauses :: "clause list option"
  res_document_type :: "string option"
  res_session_key :: "string option"
  res_error :: "string option"

record ask_result =
  ask_answer :: "string option"
  ask_error :: "string option"

text \<open>
  How a \<^verbatim>\<open>fetch\<close> ends: the promise rejects (with the error's message), or a response
  arrives with a status and a body that \<^verbatim>\<open>response.json()\<close> parses or rejects (with the
  parse error's message). \<^verbatim>\<open>response.ok\<close> is a status of 200 to 299.
\<close>

datatype 'a body = BodyJson 'a | BodyInvalid string

datatype 'a fetch_outcome = NetworkError string | Response nat "'a body"

definition response_ok :: "nat \<Rightarrow> bool" where
  "response_ok status = (200 \<le> status \<and> status \<le> 299)"

datatype form_value = FileValue file_obj | TextValue string | QuestionValue code_units

text \<open>
  What the page does that is seen from outside, in the order it happens: a request sent,
  a notification shown, the progress bar moved, a delay awaited.
\<close>

datatype effect =
    Fetch string string "(string \<times> form_value) list"
  | ErrorNotification string
  | SuccessNotification string
  | ProgressUpdate nat string
  | Wait nat

datatype timer = HideProgressTimeout

text \<open>
  An accordion entry as \<^verbatim>\<open>createAccordionItem\<close> builds it: the values printed into the
  template, then the classes that \<^verbatim>\<open>toggleAccordion\<close> changes (\<^verbatim>\<open>active\<close> on the header and
  on the content, the icon's transform).
\<close>

record accordion_item =
  data_index :: nat
  item_title :: string
  item_original :: string
  item_simplified :: string
  item_explanation :: "string option"
  header_active :: bool
  content_active :: bool
  icon_transform :: string

record qa_item =
  qa_question :: code_units
  qa_answer :: string
  qa_loading :: bool

text \<open>
  The three variables of the script and the parts of the page it reads and writes.
  Classes and styles that only animate (\<^verbatim>\<open>fade-in\<close>, \<^verbatim>\<open>interactive\<close>, colours, scrolling),
  the file label's text, console output and \<^verbatim>\<open>preventDefault\<close> are left out. \<open>trace\<close> lists
  the effects so far, oldest first; \<open>timers\<close> lists the timers started with their delays.
  Of a question's answer element, \<open>qa_answer\<close> is the text printed after the label.
\<close>

record state =
  currentDocument :: "file_obj option"
  currentSessionKey :: "string option"
  isProcessing :: bool
  fileInputFiles :: "file_obj list"
  selectedFileShown :: bool
  uploadSuccessState :: bool
  uploadErrorState :: bool
  uploadDragOver :: bool
  uploadPointerEvents :: bool
  submitDisabled :: bool
  progressShown :: bool
  progressPercent :: nat
  progressText :: string
  resultsShown :: bool
  summaryContent :: string
  clauseHtml :: string
  accordionItems :: "accordion_item list"
  qaHistory :: "qa_item list"
  questionInput :: code_units
  askDisabled :: bool
  trace :: "effect list"
  timers :: "(nat \<times> timer) list"

section \<open>File selection\<close>

definition allowedTypes :: "string list" where
  "allowedTypes =
     [''application/pdf'',
      ''application/msword'',
      ''application/vnd.openxmlformats-officedocument.wordprocessingml.document'',
      ''text/plain'']"

definition allowedExtensions :: "string list" where
  "allowedExtensions = [''pdf'', ''doc'', ''docx'', ''txt'']"

text \<open>\<^verbatim>\<open>file.name.split('.').pop().toLowerCase()\<close>; \<open>None\<close> is the TypeError of an empty array.\<close>

definition fileExtension :: "string \<Rightarrow> string option" where
  "fileExtension name = map_option toLowerCase (pop (split_on CHR ''.'' name))"

definition isValidFileType :: "file_obj \<Rightarrow> bool" where
  "isValidFileType f =
     (case fileExtension (file_name f) of
        None \<Rightarrow> False
      | Some ext \<Rightarrow> file_type f \<in> set allowedTypes \<or> ext \<in> set allowedExtensions)"

definition showError :: "string \<Rightarrow> state \<Rightarrow> state" where
  "showError message s = s\<lparr>trace := trace s @ [ErrorNotification message]\<rparr>"

definition showSuccess :: "string \<Rightarrow> state \<Rightarrow> state" where
  "showSuccess message s = s\<lparr>trace := trace s @ [SuccessNotification message]\<rparr>"

definition enableSubmitButton :: "state \<Rightarrow> state" where
  "enableSubmitButton s = s\<lparr>submitDisabled := False\<rparr>"

definition disableSubmitButton :: "state \<Rightarrow> state" where
  "disableSubmitButton s = s\<lparr>submitDisabled := True\<rparr>"

definition displaySelectedFile :: "file_obj \<Rightarrow> state \<Rightarrow> state" where
  "displaySelectedFile f s =
     s\<lparr>selectedFileShown := True, uploadSuccessState := True, currentDocument := Some f\<rparr>"

definition clearSelectedFile :: "state \<Rightarrow> state" where
  "clearSelectedFile s =
     (disableSubmitButton
        (s\<lparr>selectedFileShown := False, fileInputFiles := [], uploadSuccessState := False\<rparr>))
      \<lparr>currentDocument := None, currentSessionKey := None, uploadErrorState := False\<rparr>"

definition invalidTypeMessage :: string where
  "invalidTypeMessage = ''Please select a valid file type: PDF, DOC, DOCX, or TXT''"

text \<open>
  The \<^verbatim>\<open>change\<close> event of the file input. \<open>files\<close> is \<^verbatim>\<open>event.target.files\<close>: the input
  holds them already when the handler runs.
\<close>

definition handleFileSelection :: "file_obj list \<Rightarrow> state \<Rightarrow> state" where
  "handleFileSelection files s =
     (let s0 = s\<lparr>fileInputFiles := files\<rparr> in
      case files of
        [] \<Rightarrow> s0
      | f # _ \<Rightarrow>
          if isValidFileType f then enableSubmitButton (displaySelectedFile f s0)
          else clearSelectedFile (showError invalidTypeMessage s0))"

definition handleDragOver :: "state \<Rightarrow> state" where
  "handleDragOver s = (if \<not> isProcessing s then s\<lparr>uploadDragOver := True\<rparr> else s)"

definition handleDragLeave :: "state \<Rightarrow> state" where
  "handleDragLeave s = s\<lparr>uploadDragOver := False\<rparr>"

text \<open>The \<^verbatim>\<open>drop\<close> event; \<open>files\<close> is \<^verbatim>\<open>event.dataTransfer.files\<close>.\<close>

definition handleFileDrop :: "file_obj list \<Rightarrow> state \<Rightarrow> state" where
  "handleFileDrop files s =
     (let s0 = s\<lparr>uploadDragOver := False\<rparr> in
      if isProcessing s0 then s0
      else case files of
        [] \<Rightarrow> s0
      | f # _ \<Rightarrow>
          if isValidFileType f
          then enableSubmitButton (displaySelectedFile f (s0\<lparr>fileInputFiles := [f]\<rparr>))
          else showError invalidTypeMessage s0)"

section \<open>Progress indicator\<close>

definition updateProgress :: "nat \<Rightarrow> string \<Rightarrow> state \<Rightarrow> state" where
  "updateProgress percentage text s =
     s\<lparr>progressPercent := percentage, progressText := text,
       trace := trace s @ [ProgressUpdate percentage text]\<rparr>"

definition showProgress :: "state \<Rightarrow> state" where
  "showProgress s =
     (updateProgress 0 ''Initializing...'' (s\<lparr>progressShown := True\<rparr>))
      \<lparr>submitDisabled := True, uploadPointerEvents := False\<rparr>"

text \<open>\<^verbatim>\<open>hideProgress\<close> only starts a timer of 1000 ms; the timer's callback does the work.\<close>

definition hideProgress :: "state \<Rightarrow> state" where
  "hideProgress s = s\<lparr>timers := timers s @ [(1000, HideProgressTimeout)]\<rparr>"


definition steps :: "(nat \<times> string) list" where
  "steps =
     [(15, ''Uploading document...''),
      (35, ''Reading document content...''),
      (55, ''Analyzing legal structure...''),
      (75, ''Extracting key clauses...''),
      (90, ''Generating explanations...''),
      (100, ''Finalizing summary...'')]"

definition await_timeout :: "nat \<Rightarrow> state \<Rightarrow> state" where
  "await_timeout ms s = s\<lparr>trace := trace s @ [Wait ms]\<rparr>"

fun run_steps :: "(nat \<times> string) list \<Rightarrow> state \<Rightarrow> state" where
  "run_steps [] s = s"
| "run_steps ((progress, text) # rest) s =
     run_steps rest (updateProgress progress text (await_timeout 600 s))"

definition simulateProcessingSteps :: "state \<Rightarrow> state" where
  "simulateProcessingSteps s = run_steps steps s"

section \<open>Result rendering\<close>

definition createAccordionItem :: "clause \<Rightarrow> nat \<Rightarrow> accordion_item" where
  "createAccordionItem c index =
     \<lparr>data_index = index,
      item_title = js_or (clause_title c) (''Clause '' @ string_of_nat (index + 1)),
      item_original = js_str (clause_original c),
      item_simplified = js_str (clause_simplified c),
      item_explanation =
        (if truthy (clause_explanation c) then clause_explanation c else None),
      header_active = False,
      content_active = False,
      icon_transform = []\<rparr>"

text \<open>Assigning \<^verbatim>\<open>clauseAccordion.innerHTML\<close> replaces every child of the element.\<close>

definition set_clause_innerHTML :: "string \<Rightarrow> state \<Rightarrow> state" where
  "set_clause_innerHTML html s = s\<lparr>clauseHtml := html, accordionItems := []\<rparr>"

text \<open>The \<^verbatim>\<open>forEach\<close> of \<^verbatim>\<open>generateAccordion\<close>, from index \<open>i\<close> on.\<close>

fun append_items :: "nat \<Rightarrow> clause list \<Rightarrow> state \<Rightarrow> state" where
  "append_items i [] s = s"
| "append_items i (c # cs) s =
     append_items (Suc i) cs (s\<lparr>accordionItems := accordionItems s @ [createAccordionItem c i]\<rparr>)"

definition generateAccordion :: "clause list \<Rightarrow> state \<Rightarrow> state" where
  "generateAccordion clauses s = append_items 0 clauses (set_clause_innerHTML [] s)"

definition noClausesHtml :: string where
  "noClausesHtml = ''<p>No specific clauses identified in this document.</p>''"

definition displayResults :: "analysis_result \<Rightarrow> state \<Rightarrow> state" where
  "displayResults data s =
     (let s1 = set_clause_innerHTML [] (s\<lparr>summaryContent := []\<rparr>);
          s2 = s1\<lparr>qaHistory := []\<rparr>;
          s3 = s2\<lparr>resultsShown := True\<rparr>;
          s4 = (if truthy (res_summary data)
                then s3\<lparr>summaryContent := ''<p>'' @ js_str (res_summary data) @ ''</p>''\<rparr>
                else s3)
      in case res_clauses data of
           None \<Rightarrow> set_clause_innerHTML noClausesHtml s4
         | Some clauses \<Rightarrow>
             if length clauses > 0 then generateAccordion clauses s4
             else set_clause_innerHTML noClausesHtml s4)"

section \<open>Accordion\<close>

definition close_item :: "accordion_item \<Rightarrow> accordion_item" where
  "close_item it =
     it\<lparr>header_active := False, content_active := False, icon_transform := ''rotate(0deg)''\<rparr>"

definition open_item :: "accordion_item \<Rightarrow> accordion_item" where
  "open_item it =
     it\<lparr>header_active := True, content_active := True, icon_transform := ''rotate(180deg)''\<rparr>"

text \<open>
  The loop over \<^verbatim>\<open>.accordion-header.active\<close>: every active header other than the one at
  position \<open>i\<close> is closed. \<open>k\<close> is the position of the first entry of the list.
\<close>

fun close_others :: "nat \<Rightarrow> nat \<Rightarrow> accordion_item list \<Rightarrow> accordion_item list" where
  "close_others i k [] = []"
| "close_others i k (it # rest) =
     (if header_active it \<and> k \<noteq> i then close_item it else it) # close_others i (Suc k) rest"

text \<open>A click on the header of the entry at position \<open>i\<close>.\<close>

definition toggle_items :: "nat \<Rightarrow> accordion_item list \<Rightarrow> accordion_item list" where
  "toggle_items i items =
     (if i < length items then
        (let isActive = header_active (items ! i);
             others = close_others i 0 items
         in others[i := (if isActive then close_item (others ! i) else open_item (others ! i))])
      else close_others i 0 items)"

definition toggleAccordion :: "nat \<Rightarrow> state \<Rightarrow> state" where
  "toggleAccordion i s = s\<lparr>accordionItems := toggle_items i (accordionItems s)\<rparr>"



section \<open>Analyze workflow\<close>

definition fetch :: "string \<Rightarrow> string \<Rightarrow> (string \<times> form_value) list \<Rightarrow> state \<Rightarrow> state" where
  "fetch method url form s = s\<lparr>trace := trace s @ [Fetch method url form]\<rparr>"

text \<open>
  The \<^verbatim>\<open>try\<close> block after the request is sent: the state it leaves, and the message of
  the error it throws, if any.
\<close>

definition analyze_response :: "analysis_result fetch_outcome \<Rightarrow> state \<Rightarrow> state \<times> string option" where
  "analyze_response outcome s =
     (case outcome of
        NetworkError message \<Rightarrow> (s, Some message)
      | Response status b \<Rightarrow>
          if response_ok status then
            (case b of
               BodyInvalid message \<Rightarrow> (s, Some message)
             | BodyJson result \<Rightarrow>
                 (displayResults result
                    (if truthy (res_session_key result)
                     then s\<lparr>currentSessionKey := res_session_key result\<rparr> else s),
                  None))
          else
            (case b of
               BodyInvalid message \<Rightarrow> (s, Some ''Unknown error'')
             | BodyJson errorData \<Rightarrow>
                 (s, Some (js_or (res_error errorData) (''Server error: '' @ string_of_nat status)))))"

text \<open>The \<^verbatim>\<open>catch\<close> and \<^verbatim>\<open>finally\<close> blocks, after the response.\<close>

definition submit_settle :: "analysis_result fetch_outcome \<Rightarrow> state \<Rightarrow> state" where
  "submit_settle outcome s =
     (let (s1, thrown) = analyze_response outcome s;
          s2 = (case thrown of
                  None \<Rightarrow> s1
                | Some message \<Rightarrow>
                    (showError (''Failed to process document: '' @ message) s1)
                      \<lparr>uploadErrorState := True\<rparr>)
      in hideProgress (s2\<lparr>isProcessing := False\<rparr>))"

text \<open>The handler up to the first \<^verbatim>\<open>await\<close>, for a state that passes the guard.\<close>

definition submit_begin :: "state \<Rightarrow> state" where
  "submit_begin s = showProgress (s\<lparr>isProcessing := True\<rparr>)"

text \<open>
  One run of \<^verbatim>\<open>handleFormSubmission\<close>, with how the request ends given as \<open>outcome\<close>.
\<close>

definition handleFormSubmission :: "analysis_result fetch_outcome \<Rightarrow> state \<Rightarrow> state" where
  "handleFormSubmission outcome s =
     (case currentDocument s of
        None \<Rightarrow> s
      | Some document \<Rightarrow>
          if isProcessing s then s
          else
            (let s1 = submit_begin s;
                 formData = [(''document'', FileValue document)];
                 s2 = simulateProcessingSteps s1;
                 s3 = fetch ''POST'' ''/'' formData s2
             in submit_settle outcome s3))"

section \<open>Questions and answers\<close>

definition handleQuestionInput :: "state \<Rightarrow> state" where
  "handleQuestionInput s =
     (let question = trim (questionInput s) in
      if length question > 0 \<and> truthy (currentSessionKey s)
      then s\<lparr>askDisabled := False\<rparr>
      else s\<lparr>askDisabled := True\<rparr>)"

definition addQuestionToHistory :: "code_units \<Rightarrow> string \<Rightarrow> state \<Rightarrow> state" where
  "addQuestionToHistory question answer s =
     s\<lparr>qaHistory := qaHistory s @
          [\<lparr>qa_question = question, qa_answer = answer, qa_loading = True\<rparr>]\<rparr>"

definition updateLatestAnswer :: "string \<Rightarrow> state \<Rightarrow> state" where
  "updateLatestAnswer answer s =
     (case rev (qaHistory s) of
        [] \<Rightarrow> s
      | latest # earlier \<Rightarrow>
          s\<lparr>qaHistory := rev earlier @ [latest\<lparr>qa_answer := answer, qa_loading := False\<rparr>]\<rparr>)"

definition noSessionMessage :: string where
  "noSessionMessage = ''Please upload and analyze a document first''"

definition question_settle :: "ask_result fetch_outcome \<Rightarrow> state \<Rightarrow> state" where
  "question_settle outcome s =
     (let thrown =
            (case outcome of
               NetworkError message \<Rightarrow> Inl message
             | Response status b \<Rightarrow>
                 if response_ok status then
                   (case b of
                      BodyInvalid message \<Rightarrow> Inl message
                    | BodyJson result \<Rightarrow> Inr (js_str (ask_answer result)))
                 else
                   (case b of
                      BodyInvalid message \<Rightarrow> Inl ''Unknown error''
                    | BodyJson errorData \<Rightarrow>
                        Inl (js_or (ask_error errorData) ''Failed to get answer'')))
      in case thrown of
           Inr answer \<Rightarrow> updateLatestAnswer answer s
         | Inl message \<Rightarrow>
             updateLatestAnswer (''Sorry, I couldn't process your question: '' @ message) s)"

definition handleQuestionSubmit :: "ask_result fetch_outcome \<Rightarrow> state \<Rightarrow> state" where
  "handleQuestionSubmit outcome s =
     (let question = trim (questionInput s) in
      if question = [] \<or> \<not> truthy (currentSessionKey s) then
        (if \<not> truthy (currentSessionKey s) then showError noSessionMessage s else s)
      else
        (let s1 = addQuestionToHistory question ''Thinking...'' s;
             s2 = handleQuestionInput (s1\<lparr>questionInput := []\<rparr>);
             formData = [(''question'', QuestionValue question),
                         (''session_key'', TextValue (js_str (currentSessionKey s2)))];
             s3 = fetch ''POST'' ''/ask'' formData s2
         in question_settle outcome s3))"

section \<open>Demo loading\<close>

definition loadDemoDocument :: "analysis_result fetch_outcome \<Rightarrow> state \<Rightarrow> state" where
  "loadDemoDocument outcome s =
     (let s1 = s\<lparr>currentSessionKey := Some ''demo_session''\<rparr>;
          s2 = fetch ''GET'' ''/demo'' [] s1
      in case outcome of
           NetworkError message \<Rightarrow> showError ''Failed to load demo document'' s2
         | Response status b \<Rightarrow>
             (case b of
                BodyInvalid message \<Rightarrow> showError ''Failed to load demo document'' s2
              | BodyJson data \<Rightarrow>
                  showSuccess ''Demo document loaded successfully!'' (displayResults data s2)))"

section \<open>The page as loaded\<close>

definition initial_state :: state where
  "initial_state =
     \<lparr>currentDocument = None, currentSessionKey = None, isProcessing = False,
      fileInputFiles = [], selectedFileShown = False, uploadSuccessState = False,
      uploadErrorState = False, uploadDragOver = False, uploadPointerEvents = True,
      submitDisabled = True, progressShown = False, progressPercent = 0, progressText = [],
      resultsShown = False, summaryContent = [], clauseHtml = [], accordionItems = [],
      qaHistory = [], questionInput = [], askDisabled = True, trace = [], timers = []\<rparr>"

section \<open>Order of effects\<close>

text \<open>The position of the first element of a list that satisfies \<open>P\<close>.\<close>

fun index_of :: "('a \<Rightarrow> bool) \<Rightarrow> 'a list \<Rightarrow> nat option" where
  "index_of P [] = None"
| "index_of P (x # xs) = (if P x then Some 0 else map_option Suc (index_of P xs))"

text \<open>
  The analyze request, the last simulated step, and whether the request comes before
  that step in a trace. \<open>step_effects\<close> is what the six simulated steps do, in order.
\<close>

definition is_analyze_request :: "effect \<Rightarrow> bool" where
  "is_analyze_request e = (case e of Fetch method url form \<Rightarrow> method = ''POST'' \<and> url = ''/'' | _ \<Rightarrow> False)"

definition is_final_step :: "effect \<Rightarrow> bool" where
  "is_final_step e = (e = ProgressUpdate 100 ''Finalizing summary...'')"

definition request_before_final_step :: "effect list \<Rightarrow> bool" where
  "request_before_final_step tr =
     (case index_of is_analyze_request tr of
        None \<Rightarrow> False
      | Some i \<Rightarrow> (case index_of is_final_step tr of None \<Rightarrow> True | Some j \<Rightarrow> i < j))"

definition step_effects :: "effect list" where
  "step_effects =
     [Wait 600, ProgressUpdate 15 ''Uploading document...'',
      Wait 600, ProgressUpdate 35 ''Reading document content...'',
      Wait 600, ProgressUpdate 55 ''Analyzing legal structure...'',
      Wait 600, ProgressUpdate 75 ''Extracting key clauses...'',
      Wait 600, ProgressUpdate 90 ''Generating explanations...'',
      Wait 600, ProgressUpdate 100 ''Finalizing summary...'']"

section \<open>Sample inputs\<close>

definition contract_pdf :: file_obj where
  "contract_pdf =
     \<lparr>file_name = ''contract.pdf'', file_type = ''application/pdf'', file_size = 2048\<rparr>"

definition notes_txt :: file_obj where
  "notes_txt = \<lparr>file_name = ''NOTES.TXT'', file_type = [], file_size = 100\<rparr>"

definition scan_bin :: file_obj where
  "scan_bin = \<lparr>file_name = ''scan.bin'', file_type = ''application/pdf'', file_size = 7\<rparr>"

definition image_png :: file_obj where
  "image_png = \<lparr>file_name = ''image.png'', file_type = ''image/png'', file_size = 512\<rparr>"

definition bare_pdf :: file_obj where
  "bare_pdf = \<lparr>file_name = ''PDF'', file_type = ''image/png'', file_size = 10\<rparr>"

definition term_clause :: clause where
  "term_clause =
     \<lparr>clause_title = Some ''Term'', clause_original = Some ''O1'',
      clause_simplified = Some ''Si1'', clause_explanation = None\<rparr>"

definition untitled_clause :: clause where
  "untitled_clause =
     \<lparr>clause_title = None, clause_original = Some ''O2'',
      clause_simplified = Some ''Si2'', clause_explanation = Some ''E2''\<rparr>"

definition sample_result :: analysis_result where
  "sample_result =
     \<lparr>res_summary = Some ''S'', res_clauses = Some [term_clause, untitled_clause],
      res_document_type = None, res_session_key = Some ''sk1'', res_error = None\<rparr>"

definition empty_result :: analysis_result where
  "empty_result =
     \<lparr>res_summary = None, res_clauses = None, res_document_type = None,
      res_session_key = None, res_error = None\<rparr>"

text \<open>The page after \<^verbatim>\<open>contract.pdf\<close> was chosen with the file dialog.\<close>

definition selected_state :: state where
  "selected_state = handleFileSelection [contract_pdf] initial_state"

text \<open>
  Two question texts: "What is the term?", and one made of a space, a no-break space
  (U+00A0), a byte order mark (U+FEFF), a line separator (U+2028) and an ideographic
  space (U+3000).
\<close>

definition term_question :: code_units where
  "term_question =
     [0x57, 0x68, 0x61, 0x74, 0x20, 0x69, 0x73, 0x20, 0x74, 0x68, 0x65, 0x20,
      0x74, 0x65, 0x72, 0x6D, 0x3F]"

definition blank_question :: code_units where
  "blank_question = [0x20, 0xA0, 0xFEFF, 0x2028, 0x3000]"

text \<open>A page that shows an earlier result and one answered question.\<close>

definition stale_state :: state where
  "stale_state =
     initial_state\<lparr>summaryContent := ''<p>old</p>'', clauseHtml := ''<p>old</p>'',
       qaHistory := [\<lparr>qa_question = [0x51], qa_answer = ''A'', qa_loading = False\<rparr>]\<rparr>"


section \<open>Facts about the helpers\<close>

lemmas file_ops =
  handleFileSelection_def handleFileDrop_def enableSubmitButton_def displaySelectedFile_def
  clearSelectedFile_def disableSubmitButton_def showError_def

lemma split_on_nonempty: "split_on sep s \<noteq> []"
  by (induction s) (auto split: list.splits)

lemma split_on_no_sep: "sep \<notin> set s \<Longrightarrow> split_on sep s = [s]"
  by (induction s) auto

lemma split_on_sep_many: "sep \<in> set s \<Longrightarrow> \<exists>w v ws. split_on sep s = w # v # ws"
proof (induction s)
  case Nil
  then show ?case by simp
next
  case (Cons c cs)
  show ?case
  proof (cases "c = sep")
    case True
    obtain v ws where "split_on sep cs = v # ws"
      using split_on_nonempty [of sep cs] by (cases "split_on sep cs") auto
    with True show ?thesis by simp
  next
    case False
    with Cons.prems have "sep \<in> set cs" by auto
    then obtain w v ws where "split_on sep cs = w # v # ws"
      using Cons.IH by blast
    with False show ?thesis by simp
  qed
qed

text \<open>The last piece of a split is the text after the last separator.\<close>

lemma last_split_on:
  "last (split_on sep s) = rev (takeWhile (\<lambda>c. c \<noteq> sep) (rev s))"
proof (induction s)
  case Nil
  then show ?case by simp
next
  case (Cons c cs)
  show ?case
  proof (cases "c = sep")
    case True
    then show ?thesis
      using Cons.IH split_on_nonempty [of sep cs] by (simp add: takeWhile_append)
  next
    case False
    show ?thesis
    proof (cases "sep \<in> set cs")
      case True
      then obtain w v ws where "split_on sep cs = w # v # ws"
        using split_on_sep_many by blast
      with False True show ?thesis
        using Cons.IH by (auto simp: takeWhile_append)
    next
      case no: False
      with False show ?thesis
        by (simp add: split_on_no_sep takeWhile_append)
    qed
  qed
qed

lemma fileExtension_eq:
  "fileExtension name = Some (toLowerCase (rev (takeWhile (\<lambda>c. c \<noteq> CHR ''.'') (rev name))))"
  by (simp add: fileExtension_def pop_def split_on_nonempty last_split_on)

lemma fileExtension_no_dot:
  "CHR ''.'' \<notin> set name \<Longrightarrow> fileExtension name = Some (toLowerCase name)"
  by (simp add: fileExtension_def pop_def split_on_no_sep)

lemma contract_pdf_valid: "isValidFileType contract_pdf"
  by (simp add: isValidFileType_def contract_pdf_def allowedTypes_def fileExtension_def pop_def)

lemma notes_txt_valid: "isValidFileType notes_txt"
  by (simp add: isValidFileType_def notes_txt_def allowedTypes_def allowedExtensions_def
      fileExtension_def pop_def toLowerCase_def toLowerCase_char_def)

lemma scan_bin_valid: "isValidFileType scan_bin"
  by (simp add: isValidFileType_def scan_bin_def allowedTypes_def fileExtension_def pop_def)

lemma image_png_invalid: "\<not> isValidFileType image_png"
  by (simp add: isValidFileType_def image_png_def allowedTypes_def allowedExtensions_def
      fileExtension_def pop_def toLowerCase_def toLowerCase_char_def)

lemma selected_state_eq:
  "selected_state =
     initial_state\<lparr>fileInputFiles := [contract_pdf], selectedFileShown := True,
       uploadSuccessState := True, currentDocument := Some contract_pdf,
       submitDisabled := False\<rparr>"
  by (simp add: selected_state_def file_ops contract_pdf_valid initial_state_def)

lemma trace_run_steps:
  "trace (run_steps xs s) = trace s @ concat (map (\<lambda>(p, t). [Wait 600, ProgressUpdate p t]) xs)"
  by (induction xs s rule: run_steps.induct) (simp_all add: updateProgress_def await_timeout_def)

lemma currentSessionKey_run_steps [simp]:
  "currentSessionKey (run_steps xs s) = currentSessionKey s"
  by (induction xs s rule: run_steps.induct) (simp_all add: updateProgress_def await_timeout_def)

lemma currentDocument_run_steps [simp]:
  "currentDocument (run_steps xs s) = currentDocument s"
  by (induction xs s rule: run_steps.induct) (simp_all add: updateProgress_def await_timeout_def)

lemma currentSessionKey_append_items [simp]:
  "currentSessionKey (append_items i cs s) = currentSessionKey s"
  by (induction i cs s rule: append_items.induct) simp_all

lemma currentDocument_append_items [simp]:
  "currentDocument (append_items i cs s) = currentDocument s"
  by (induction i cs s rule: append_items.induct) simp_all

lemma currentSessionKey_displayResults [simp]:
  "currentSessionKey (displayResults data s) = currentSessionKey s"
  by (simp add: displayResults_def generateAccordion_def set_clause_innerHTML_def Let_def
      split: option.splits)

lemma currentDocument_displayResults [simp]:
  "currentDocument (displayResults data s) = currentDocument s"
  by (simp add: displayResults_def generateAccordion_def set_clause_innerHTML_def Let_def
      split: option.splits)

lemma currentSessionKey_submit_settle:
  "currentSessionKey (submit_settle outcome s) =
     (case outcome of
        Response status (BodyJson result) \<Rightarrow>
          if response_ok status \<and> truthy (res_session_key result)
          then res_session_key result else currentSessionKey s
      | _ \<Rightarrow> currentSessionKey s)"
  by (simp add: submit_settle_def analyze_response_def hideProgress_def showError_def Let_def
      split: fetch_outcome.splits body.splits option.splits)

lemma trace_simulateProcessingSteps:
  "trace (simulateProcessingSteps s) = trace s @ step_effects"
  by (simp add: simulateProcessingSteps_def steps_def step_effects_def updateProgress_def
      await_timeout_def)

lemma run_steps_frame:
  "isProcessing (run_steps xs s) = isProcessing s
   \<and> summaryContent (run_steps xs s) = summaryContent s
   \<and> clauseHtml (run_steps xs s) = clauseHtml s
   \<and> accordionItems (run_steps xs s) = accordionItems s
   \<and> qaHistory (run_steps xs s) = qaHistory s
   \<and> resultsShown (run_steps xs s) = resultsShown s
   \<and> timers (run_steps xs s) = timers s"
  by (induction xs s rule: run_steps.induct) (simp_all add: updateProgress_def await_timeout_def)

lemma progressPercent_run_steps:
  "xs \<noteq> [] \<Longrightarrow> progressPercent (run_steps xs s) = fst (last xs)"
  by (induction xs s rule: run_steps.induct) (auto simp: updateProgress_def await_timeout_def)

lemma append_items_frame:
  "isProcessing (append_items i cs s) = isProcessing s
   \<and> timers (append_items i cs s) = timers s
   \<and> trace (append_items i cs s) = trace s"
  by (induction i cs s rule: append_items.induct) simp_all

lemma displayResults_frame:
  "isProcessing (displayResults data s) = isProcessing s
   \<and> timers (displayResults data s) = timers s
   \<and> trace (displayResults data s) = trace s"
  by (simp add: displayResults_def generateAccordion_def set_clause_innerHTML_def Let_def
      append_items_frame split: option.splits)

lemma analyze_response_frame:
  "timers (fst (analyze_response outcome s)) = timers s
   \<and> trace (fst (analyze_response outcome s)) = trace s"
  by (simp add: analyze_response_def displayResults_frame
      split: fetch_outcome.splits body.splits)

lemma snd_analyze_response:
  "snd (analyze_response outcome s) = snd (analyze_response outcome t)"
  by (simp add: analyze_response_def split: fetch_outcome.splits body.splits)


lemma trace_submit_settle:
  "trace (submit_settle outcome s) =
     trace s @ (case snd (analyze_response outcome s) of
                  None \<Rightarrow> []
                | Some message \<Rightarrow> [ErrorNotification (''Failed to process document: '' @ message)])"
  using analyze_response_frame [of outcome s]
  by (cases "analyze_response outcome s")
    (auto simp: submit_settle_def hideProgress_def showError_def Let_def split: option.splits)





lemma handleFormSubmission_pass:
  "currentDocument s = Some d \<Longrightarrow> \<not> isProcessing s \<Longrightarrow>
     handleFormSubmission outcome s =
       submit_settle outcome
         (fetch ''POST'' ''/'' [(''document'', FileValue d)]
            (simulateProcessingSteps (submit_begin s)))"
  by (simp add: handleFormSubmission_def Let_def)

lemma append_items_items:
  "accordionItems (append_items i cs s)
     = accordionItems s @ map (\<lambda>(k, c). createAccordionItem c k) (enumerate i cs)"
  by (induction i cs s rule: append_items.induct) simp_all

lemma append_items_rest:
  "clauseHtml (append_items i cs s) = clauseHtml s
   \<and> summaryContent (append_items i cs s) = summaryContent s
   \<and> qaHistory (append_items i cs s) = qaHistory s"
  by (induction i cs s rule: append_items.induct) simp_all

lemma displayResults_summary:
  "summaryContent (displayResults data s)
     = (case res_summary data of
          None \<Rightarrow> []
        | Some t \<Rightarrow> if t = [] then [] else ''<p>'' @ t @ ''</p>'')"
  by (simp add: displayResults_def generateAccordion_def set_clause_innerHTML_def Let_def
      append_items_rest split: option.splits)

lemma displayResults_qa: "qaHistory (displayResults data s) = []"
  by (simp add: displayResults_def generateAccordion_def set_clause_innerHTML_def Let_def
      append_items_rest split: option.splits)

lemma displayResults_no_clauses:
  "res_clauses data = None \<or> res_clauses data = Some [] \<Longrightarrow>
     accordionItems (displayResults data s) = []
     \<and> clauseHtml (displayResults data s) = noClausesHtml"
  by (auto simp: displayResults_def set_clause_innerHTML_def Let_def)

lemma displayResults_clauses:
  "res_clauses data = Some cs \<Longrightarrow> cs \<noteq> [] \<Longrightarrow>
     clauseHtml (displayResults data s) = []
     \<and> accordionItems (displayResults data s)
         = map (\<lambda>(k, c). createAccordionItem c k) (enumerate 0 cs)"
  by (simp add: displayResults_def generateAccordion_def set_clause_innerHTML_def Let_def
      append_items_rest append_items_items)

lemma length_close_others [simp]: "length (close_others i k xs) = length xs"
  by (induction xs arbitrary: k) simp_all


lemma length_toggle_items [simp]: "length (toggle_items i xs) = length xs"
  by (simp add: toggle_items_def Let_def)




lemma length_items_toggleAccordion [simp]:
  "length (accordionItems (toggleAccordion i s)) = length (accordionItems s)"
  by (simp add: toggleAccordion_def)





section \<open>The claims\<close>

subsection \<open>C1: the submission guard\<close>

text \<open>
  C1. Submitting the analyze form is a no-op whenever \<^verbatim>\<open>isProcessing\<close> is true or no
  document is selected: \<^verbatim>\<open>handleFormSubmission\<close> returns the state as it was, whatever the
  server would have answered. The state holds the effect trace, so no request was sent,
  no error was shown and nothing of the workflow changed.
\<close>

theorem C1_submit_guard_noop:
  "isProcessing s \<or> currentDocument s = None \<Longrightarrow> handleFormSubmission outcome s = s"
  by (auto simp: handleFormSubmission_def split: option.splits)

theorem C1_submit_guard_noop_witness:
  "currentDocument initial_state = None
   \<and> handleFormSubmission (Response 200 (BodyInvalid ''x'')) initial_state = initial_state
   \<and> isProcessing (initial_state\<lparr>currentDocument := Some contract_pdf, isProcessing := True\<rparr>)
   \<and> handleFormSubmission (NetworkError ''offline'')
        (initial_state\<lparr>currentDocument := Some contract_pdf, isProcessing := True\<rparr>)
      = initial_state\<lparr>currentDocument := Some contract_pdf, isProcessing := True\<rparr>"
  using C1_submit_guard_noop [of initial_state "Response 200 (BodyInvalid ''x'')"]
    C1_submit_guard_noop
      [of "initial_state\<lparr>currentDocument := Some contract_pdf, isProcessing := True\<rparr>"
          "NetworkError ''offline''"]
  by (simp add: initial_state_def)

subsection \<open>C3: file validation\<close>

text \<open>
  C3. File validation is a permissive OR of two allowlists: \<^verbatim>\<open>isValidFileType\<close> accepts a
  file exactly when its MIME type is one of the four allowed types or its lower-cased
  extension (the text after the last dot of the name) is one of pdf, doc, docx, txt.
  Either match alone is enough, and a file that matches neither is rejected. A file
  chosen with the file dialog becomes the current document exactly when it is accepted;
  otherwise no document is selected. An accepted file dropped on the upload area while
  no analysis is running becomes the current document as well.
\<close>

theorem C3_validation_is_or_of_allowlists:
  "isValidFileType f =
     (file_type f \<in> {''application/pdf'', ''application/msword'',
         ''application/vnd.openxmlformats-officedocument.wordprocessingml.document'',
         ''text/plain''}
      \<or> toLowerCase (rev (takeWhile (\<lambda>c. c \<noteq> CHR ''.'') (rev (file_name f))))
           \<in> {''pdf'', ''doc'', ''docx'', ''txt''})
   \<and> currentDocument (handleFileSelection (f # fs) s)
       = (if isValidFileType f then Some f else None)
   \<and> (isValidFileType f \<and> \<not> isProcessing s \<longrightarrow>
        currentDocument (handleFileDrop (f # fs) s) = Some f)"
proof -
  have valid: "isValidFileType f =
     (file_type f \<in> {''application/pdf'', ''application/msword'',
         ''application/vnd.openxmlformats-officedocument.wordprocessingml.document'',
         ''text/plain''}
      \<or> toLowerCase (rev (takeWhile (\<lambda>c. c \<noteq> CHR ''.'') (rev (file_name f))))
           \<in> {''pdf'', ''doc'', ''docx'', ''txt''})"
    by (simp add: isValidFileType_def fileExtension_eq allowedTypes_def allowedExtensions_def)
  have browse: "currentDocument (handleFileSelection (f # fs) s)
       = (if isValidFileType f then Some f else None)"
    by (simp add: file_ops)
  have drop: "isValidFileType f \<and> \<not> isProcessing s \<longrightarrow>
        currentDocument (handleFileDrop (f # fs) s) = Some f"
    by (simp add: file_ops)
  from valid browse drop show ?thesis by (intro conjI)
qed

theorem C3_validation_is_or_of_allowlists_witness:
  "currentDocument (handleFileSelection [notes_txt] initial_state) = Some notes_txt
   \<and> currentDocument (handleFileSelection [scan_bin] initial_state) = Some scan_bin
   \<and> currentDocument (handleFileSelection [image_png] selected_state) = None
   \<and> currentDocument (handleFileDrop [notes_txt] selected_state) = Some notes_txt"
  using C3_validation_is_or_of_allowlists [of notes_txt "[]" initial_state]
    C3_validation_is_or_of_allowlists [of notes_txt "[]" selected_state]
    C3_validation_is_or_of_allowlists [of scan_bin "[]" initial_state]
    C3_validation_is_or_of_allowlists [of image_png "[]" selected_state]
    notes_txt_valid scan_bin_valid image_png_invalid
  by (simp add: selected_state_eq initial_state_def)

subsection \<open>C10: a name without a dot\<close>

text \<open>
  C10. For a file whose name contains no dot, the extension check compares the whole
  lower-cased name with the allowlist: a file named pdf, doc, docx or txt (in any case)
  is accepted by \<^verbatim>\<open>isValidFileType\<close>, whatever its MIME type.
\<close>

theorem C10_whole_name_is_extension:
  "CHR ''.'' \<notin> set (file_name f) \<Longrightarrow>
     fileExtension (file_name f) = Some (toLowerCase (file_name f))
     \<and> (toLowerCase (file_name f) \<in> {''pdf'', ''doc'', ''docx'', ''txt''} \<longrightarrow> isValidFileType f)"
  by (simp add: isValidFileType_def fileExtension_no_dot allowedExtensions_def)

theorem C10_whole_name_is_extension_witness:
  "CHR ''.'' \<notin> set (file_name bare_pdf)
   \<and> file_type bare_pdf \<notin> set allowedTypes
   \<and> toLowerCase (file_name bare_pdf) = ''pdf''
   \<and> isValidFileType bare_pdf"
  using C10_whole_name_is_extension [of bare_pdf]
  by (simp add: bare_pdf_def toLowerCase_def toLowerCase_char_def allowedTypes_def)

subsection \<open>C4: an invalid file\<close>

text \<open>
  C4, as amended. A file of an invalid type chosen with the file dialog is rejected: the
  error notification is shown and the workflow is reset to the empty selection (no
  document, no session key, the file input emptied, the submit button disabled), also
  when a valid document was selected before. A file of an invalid type dropped on the
  upload area while no analysis is running is rejected as well and the same error
  notification is shown: the dropped file is never stored, so the current document, the
  session key and the file input afterwards hold what they held before or nothing, and a
  disabled submit button, a hidden file label and an upload area without the success
  mark stay as they are. Whether such a drop also resets an existing selection is not
  part of the statement. A drop while an analysis is running is
  ignored: it only removes the drag highlight.
\<close>

theorem C4_invalid_file_rejected:
  "\<not> isValidFileType f \<Longrightarrow>
     handleFileSelection (f # fs) s
       = s\<lparr>currentDocument := None, currentSessionKey := None, fileInputFiles := [],
           selectedFileShown := False, uploadSuccessState := False,
           uploadErrorState := False, submitDisabled := True,
           trace := trace s @
             [ErrorNotification ''Please select a valid file type: PDF, DOC, DOCX, or TXT'']\<rparr>
     \<and> (\<not> isProcessing s \<longrightarrow>
          trace (handleFileDrop (f # fs) s)
            = trace s @
                [ErrorNotification ''Please select a valid file type: PDF, DOC, DOCX, or TXT'']
          \<and> (currentDocument (handleFileDrop (f # fs) s) = None
               \<or> currentDocument (handleFileDrop (f # fs) s) = currentDocument s)
          \<and> (currentSessionKey (handleFileDrop (f # fs) s) = None
               \<or> currentSessionKey (handleFileDrop (f # fs) s) = currentSessionKey s)
          \<and> (fileInputFiles (handleFileDrop (f # fs) s) = []
               \<or> fileInputFiles (handleFileDrop (f # fs) s) = fileInputFiles s)
          \<and> (submitDisabled s \<longrightarrow> submitDisabled (handleFileDrop (f # fs) s))
          \<and> (\<not> selectedFileShown s \<longrightarrow> \<not> selectedFileShown (handleFileDrop (f # fs) s))
          \<and> (\<not> uploadSuccessState s \<longrightarrow> \<not> uploadSuccessState (handleFileDrop (f # fs) s)))
     \<and> (isProcessing s \<longrightarrow> handleFileDrop (f # fs) s = s\<lparr>uploadDragOver := False\<rparr>)"
  by (simp add: file_ops invalidTypeMessage_def)

theorem C4_invalid_file_rejected_witness:
  "\<not> isValidFileType image_png
   \<and> currentDocument selected_state = Some contract_pdf
   \<and> handleFileSelection [image_png] selected_state
       = initial_state\<lparr>trace :=
           [ErrorNotification ''Please select a valid file type: PDF, DOC, DOCX, or TXT'']\<rparr>
   \<and> \<not> isProcessing selected_state
   \<and> trace (handleFileDrop [image_png] selected_state)
       = [ErrorNotification ''Please select a valid file type: PDF, DOC, DOCX, or TXT'']
   \<and> currentDocument (handleFileDrop [image_png] selected_state) \<noteq> Some image_png
   \<and> fileInputFiles (handleFileDrop [image_png] selected_state) \<noteq> [image_png]
   \<and> currentDocument (handleFileDrop [image_png] initial_state) = None
   \<and> submitDisabled (handleFileDrop [image_png] initial_state)
   \<and> handleFileDrop [image_png] (selected_state\<lparr>isProcessing := True\<rparr>)
       = selected_state\<lparr>isProcessing := True\<rparr>"
proof -
  have differ: "contract_pdf \<noteq> image_png"
    by (simp add: contract_pdf_def image_png_def)
  have sel: "currentDocument selected_state = Some contract_pdf"
    "fileInputFiles selected_state = [contract_pdf]"
    "\<not> isProcessing selected_state" "trace selected_state = []"
    by (simp_all add: selected_state_eq initial_state_def)
  have browse: "handleFileSelection [image_png] selected_state
       = initial_state\<lparr>trace :=
           [ErrorNotification ''Please select a valid file type: PDF, DOC, DOCX, or TXT'']\<rparr>"
    using C4_invalid_file_rejected [OF image_png_invalid, of "[]" selected_state]
    by (simp add: selected_state_eq initial_state_def)
  have idle: "trace (handleFileDrop [image_png] selected_state)
       = [ErrorNotification ''Please select a valid file type: PDF, DOC, DOCX, or TXT'']
     \<and> currentDocument (handleFileDrop [image_png] selected_state) \<noteq> Some image_png
     \<and> fileInputFiles (handleFileDrop [image_png] selected_state) \<noteq> [image_png]"
    using C4_invalid_file_rejected [OF image_png_invalid, of "[]" selected_state] sel differ
    by auto
  have fresh: "currentDocument (handleFileDrop [image_png] initial_state) = None
     \<and> submitDisabled (handleFileDrop [image_png] initial_state)"
    using C4_invalid_file_rejected [OF image_png_invalid, of "[]" initial_state]
    by (auto simp: initial_state_def)
  have busy: "handleFileDrop [image_png] (selected_state\<lparr>isProcessing := True\<rparr>)
       = selected_state\<lparr>isProcessing := True\<rparr>"
    using C4_invalid_file_rejected
      [OF image_png_invalid, of "[]" "selected_state\<lparr>isProcessing := True\<rparr>"]
    by (simp add: selected_state_eq initial_state_def)
  from image_png_invalid sel browse idle fresh busy show ?thesis by simp
qed

text \<open>
  C4 as stated fails on the drop path. With \<^verbatim>\<open>contract.pdf\<close> selected, dropping
  \<^verbatim>\<open>image.png\<close> shows the error and keeps the document and the enabled submit button:
  \<^verbatim>\<open>handleFileDrop\<close> does not call \<^verbatim>\<open>clearSelectedFile\<close>. And a drop while an analysis is
  running shows no error at all.
\<close>

theorem C4_counterexample:
  "currentDocument (handleFileDrop [image_png] selected_state) = Some contract_pdf
   \<and> \<not> submitDisabled (handleFileDrop [image_png] selected_state)
   \<and> trace (handleFileDrop [image_png] (selected_state\<lparr>isProcessing := True\<rparr>)) = []"
  by (simp add: file_ops image_png_invalid selected_state_eq initial_state_def)

subsection \<open>C5: the session key\<close>

text \<open>
  C5, as amended. The session key is written in three places only. Clearing the
  selection (also the clearing after an invalid choice in the file dialog) makes it
  absent. A run of the analyze workflow sets it to the response's \<^verbatim>\<open>session_key\<close> when the
  guard is passed, the response is ok and carries a non-empty key, and leaves it as it
  was otherwise. Demo loading sets it to \<^verbatim>\<open>demo_session\<close>, whatever is selected and however
  the demo request ends. Choosing or dropping a valid file leaves it unchanged.
\<close>

theorem C5_session_key_writes:
  "currentSessionKey (clearSelectedFile s) = None
   \<and> currentSessionKey (displaySelectedFile f s) = currentSessionKey s
   \<and> currentSessionKey (handleFileSelection files s) =
       (case files of
          [] \<Rightarrow> currentSessionKey s
        | f # _ \<Rightarrow> if isValidFileType f then currentSessionKey s else None)
   \<and> currentSessionKey (handleFileDrop files s) = currentSessionKey s
   \<and> currentSessionKey (handleFormSubmission outcome s) =
       (case outcome of
          Response status (BodyJson result) \<Rightarrow>
            if currentDocument s \<noteq> None \<and> \<not> isProcessing s
               \<and> response_ok status \<and> truthy (res_session_key result)
            then res_session_key result else currentSessionKey s
        | _ \<Rightarrow> currentSessionKey s)
   \<and> currentSessionKey (loadDemoDocument demo s) = Some ''demo_session''"
proof -
  have clear: "currentSessionKey (clearSelectedFile s) = None"
    by (simp add: file_ops)
  have display: "currentSessionKey (displaySelectedFile f s) = currentSessionKey s"
    by (simp add: file_ops)
  have browse: "currentSessionKey (handleFileSelection files s) =
       (case files of
          [] \<Rightarrow> currentSessionKey s
        | f # _ \<Rightarrow> if isValidFileType f then currentSessionKey s else None)"
    by (simp add: file_ops split: list.splits)
  have drop: "currentSessionKey (handleFileDrop files s) = currentSessionKey s"
    by (simp add: file_ops Let_def split: list.splits)
  have analyze: "currentSessionKey (handleFormSubmission outcome s) =
       (case outcome of
          Response status (BodyJson result) \<Rightarrow>
            if currentDocument s \<noteq> None \<and> \<not> isProcessing s
               \<and> response_ok status \<and> truthy (res_session_key result)
            then res_session_key result else currentSessionKey s
        | _ \<Rightarrow> currentSessionKey s)"
    by (auto simp: handleFormSubmission_def currentSessionKey_submit_settle fetch_def
        simulateProcessingSteps_def submit_begin_def showProgress_def updateProgress_def Let_def
        split: option.splits fetch_outcome.splits body.splits)
  have demo: "currentSessionKey (loadDemoDocument demo s) = Some ''demo_session''"
    by (simp add: loadDemoDocument_def fetch_def showError_def showSuccess_def Let_def
        split: fetch_outcome.splits body.splits)
  from clear display browse drop analyze demo show ?thesis by blast
qed

theorem C5_session_key_writes_witness:
  "currentSessionKey (handleFormSubmission (Response 200 (BodyJson sample_result)) selected_state)
     = Some ''sk1''
   \<and> currentSessionKey
       (clearSelectedFile
          (handleFormSubmission (Response 200 (BodyJson sample_result)) selected_state))
     = None
   \<and> currentSessionKey
       (handleFormSubmission (Response 500 (BodyJson sample_result)) selected_state)
     = None"
  using C5_session_key_writes
      [of selected_state contract_pdf "[]" "Response 200 (BodyJson sample_result)"
          "NetworkError []"]
    C5_session_key_writes
      [of "handleFormSubmission (Response 200 (BodyJson sample_result)) selected_state"
          contract_pdf "[]" "NetworkError []" "NetworkError []"]
    C5_session_key_writes
      [of selected_state contract_pdf "[]" "Response 500 (BodyJson sample_result)"
          "NetworkError []"]
  by (simp add: selected_state_eq initial_state_def response_ok_def sample_result_def)

text \<open>
  C5 as stated fails. Demo loading on the fresh page stores a session key although no
  document is selected and the demo request failed; and after an analysis of
  \<^verbatim>\<open>contract.pdf\<close> that returned the key \<^verbatim>\<open>sk1\<close>, choosing \<^verbatim>\<open>NOTES.TXT\<close> keeps that key
  for a document that was never analyzed.
\<close>

theorem C5_counterexample:
  "currentSessionKey (loadDemoDocument (NetworkError ''offline'') initial_state)
     = Some ''demo_session''
   \<and> currentDocument (loadDemoDocument (NetworkError ''offline'') initial_state) = None
   \<and> currentSessionKey
        (handleFileSelection [notes_txt]
           (handleFormSubmission (Response 200 (BodyJson sample_result)) selected_state))
      = Some ''sk1''
   \<and> currentDocument
        (handleFileSelection [notes_txt]
           (handleFormSubmission (Response 200 (BodyJson sample_result)) selected_state))
      = Some notes_txt"
  by (simp add: loadDemoDocument_def showError_def file_ops notes_txt_valid
      handleFormSubmission_def submit_begin_def showProgress_def
      updateProgress_def simulateProcessingSteps_def currentSessionKey_submit_settle
      response_ok_def sample_result_def selected_state_eq initial_state_def Let_def fetch_def)

subsection \<open>C9: the question guard\<close>

text \<open>
  C9, as amended. Without a session key, \<^verbatim>\<open>handleQuestionSubmit\<close> sends no request and
  shows the error "Please upload and analyze a document first", whatever the
  question field holds; nothing else changes. With a session key and a question that is
  empty after trimming (empty, or made of white space only, ASCII or not), it returns
  silently: the state, and so the trace of requests and notifications, is unchanged.
\<close>

theorem C9_question_guard:
  "(\<not> truthy (currentSessionKey s) \<longrightarrow>
      handleQuestionSubmit outcome s
        = s\<lparr>trace := trace s @ [ErrorNotification ''Please upload and analyze a document first'']\<rparr>)
   \<and> (trim (questionInput s) = [] \<and> truthy (currentSessionKey s) \<longrightarrow>
      handleQuestionSubmit outcome s = s)"
  by (simp add: handleQuestionSubmit_def showError_def noSessionMessage_def)

theorem C9_question_guard_witness:
  "\<not> truthy (currentSessionKey (initial_state\<lparr>questionInput := term_question\<rparr>))
   \<and> handleQuestionSubmit (NetworkError ''offline'')
        (initial_state\<lparr>questionInput := term_question\<rparr>)
      = initial_state\<lparr>questionInput := term_question,
          trace := [ErrorNotification ''Please upload and analyze a document first'']\<rparr>
   \<and> truthy (currentSessionKey
        (initial_state\<lparr>currentSessionKey := Some ''sk1'', questionInput := blank_question\<rparr>))
   \<and> trim (questionInput
        (initial_state\<lparr>currentSessionKey := Some ''sk1'', questionInput := blank_question\<rparr>))
      = []
   \<and> handleQuestionSubmit (NetworkError ''offline'')
        (initial_state\<lparr>currentSessionKey := Some ''sk1'', questionInput := blank_question\<rparr>)
      = initial_state\<lparr>currentSessionKey := Some ''sk1'', questionInput := blank_question\<rparr>"
proof -
  have blank: "trim blank_question = []"
    by (simp add: trim_def blank_question_def is_whitespace_def)
  show ?thesis
    using C9_question_guard [of "initial_state\<lparr>questionInput := term_question\<rparr>"
        "NetworkError ''offline''"]
      C9_question_guard
        [of "initial_state\<lparr>currentSessionKey := Some ''sk1'', questionInput := blank_question\<rparr>"
          "NetworkError ''offline''"]
      blank
    by (simp add: initial_state_def)
qed

text \<open>
  C9 as stated fails where the question is empty and there is no session key: on the
  fresh page, with an empty question field, the submission is not silent; the error
  notification is shown.
\<close>

theorem C9_counterexample:
  "trim (questionInput initial_state) = []
   \<and> trace (handleQuestionSubmit (NetworkError ''offline'') initial_state)
       = [ErrorNotification ''Please upload and analyze a document first'']"
  by (simp add: handleQuestionSubmit_def initial_state_def trim_def showError_def
      noSessionMessage_def)

subsection \<open>C2: the simulated steps and the request\<close>

text \<open>
  C2, as amended. The simulated progress sequence and the analyze request run one after
  the other: for every submission that passes the guard, the handler first shows the
  progress bar at 0, then awaits the six steps (600 ms before each) up to 100, and only
  then sends the POST with the document. The state in which the request is sent has the
  progress at 100 and still shows the earlier summary, clauses and results section; the
  response is handled, and a result rendered, from that state on. An error notification
  is the only further effect, when the outcome is a failure.
\<close>

theorem C2_request_after_steps:
  "currentDocument s = Some d \<Longrightarrow> \<not> isProcessing s \<Longrightarrow>
     trace (handleFormSubmission outcome s)
       = trace s @ [ProgressUpdate 0 ''Initializing...''] @ step_effects
           @ [Fetch ''POST'' ''/'' [(''document'', FileValue d)]]
           @ (case snd (analyze_response outcome s) of
                None \<Rightarrow> []
              | Some message \<Rightarrow>
                  [ErrorNotification (''Failed to process document: '' @ message)])
     \<and> handleFormSubmission outcome s
         = submit_settle outcome
             (fetch ''POST'' ''/'' [(''document'', FileValue d)]
                (simulateProcessingSteps (submit_begin s)))
     \<and> progressPercent (simulateProcessingSteps (submit_begin s)) = 100
     \<and> summaryContent (simulateProcessingSteps (submit_begin s)) = summaryContent s
     \<and> clauseHtml (simulateProcessingSteps (submit_begin s)) = clauseHtml s
     \<and> accordionItems (simulateProcessingSteps (submit_begin s)) = accordionItems s
     \<and> resultsShown (simulateProcessingSteps (submit_begin s)) = resultsShown s"
proof -
  assume d: "currentDocument s = Some d" and idle: "\<not> isProcessing s"
  let ?pre = "fetch ''POST'' ''/'' [(''document'', FileValue d)]
                (simulateProcessingSteps (submit_begin s))"
  have run: "handleFormSubmission outcome s = submit_settle outcome ?pre"
    by (rule handleFormSubmission_pass [OF d idle])
  have pre: "trace ?pre = trace s @ [ProgressUpdate 0 ''Initializing...''] @ step_effects
           @ [Fetch ''POST'' ''/'' [(''document'', FileValue d)]]"
    by (simp add: fetch_def trace_simulateProcessingSteps submit_begin_def showProgress_def
        updateProgress_def)
  have tr: "trace (handleFormSubmission outcome s)
       = trace s @ [ProgressUpdate 0 ''Initializing...''] @ step_effects
           @ [Fetch ''POST'' ''/'' [(''document'', FileValue d)]]
           @ (case snd (analyze_response outcome s) of
                None \<Rightarrow> []
              | Some message \<Rightarrow>
                  [ErrorNotification (''Failed to process document: '' @ message)])"
    unfolding run trace_submit_settle pre snd_analyze_response [of outcome ?pre s] by simp
  have percent: "progressPercent (simulateProcessingSteps (submit_begin s)) = 100"
    unfolding simulateProcessingSteps_def
    by (subst progressPercent_run_steps) (simp_all add: steps_def)
  have frame: "summaryContent (simulateProcessingSteps (submit_begin s)) = summaryContent s
     \<and> clauseHtml (simulateProcessingSteps (submit_begin s)) = clauseHtml s
     \<and> accordionItems (simulateProcessingSteps (submit_begin s)) = accordionItems s
     \<and> resultsShown (simulateProcessingSteps (submit_begin s)) = resultsShown s"
    by (simp add: simulateProcessingSteps_def run_steps_frame submit_begin_def showProgress_def
        updateProgress_def)
  from tr run percent frame show ?thesis by blast
qed

theorem C2_request_after_steps_witness:
  "currentDocument selected_state = Some contract_pdf \<and> \<not> isProcessing selected_state
   \<and> trace (handleFormSubmission (Response 500 (BodyInvalid ''<html>'')) selected_state)
       = [ProgressUpdate 0 ''Initializing...''] @ step_effects
           @ [Fetch ''POST'' ''/'' [(''document'', FileValue contract_pdf)],
              ErrorNotification ''Failed to process document: Unknown error'']"
proof -
  have d: "currentDocument selected_state = Some contract_pdf"
    and idle: "\<not> isProcessing selected_state"
    by (simp_all add: selected_state_eq initial_state_def)
  have "trace (handleFormSubmission (Response 500 (BodyInvalid ''<html>'')) selected_state)
       = trace selected_state @ [ProgressUpdate 0 ''Initializing...''] @ step_effects
           @ [Fetch ''POST'' ''/'' [(''document'', FileValue contract_pdf)]]
           @ (case snd (analyze_response (Response 500 (BodyInvalid ''<html>'')) selected_state) of
                None \<Rightarrow> []
              | Some message \<Rightarrow>
                  [ErrorNotification (''Failed to process document: '' @ message)])"
    using C2_request_after_steps [OF d idle, of "Response 500 (BodyInvalid ''<html>'')"]
    by (rule conjunct1)
  moreover have "trace selected_state = []"
    by (simp add: selected_state_eq initial_state_def)
  moreover have "snd (analyze_response (Response 500 (BodyInvalid ''<html>'')) selected_state)
      = Some ''Unknown error''"
    by (simp add: analyze_response_def response_ok_def)
  ultimately show ?thesis using d idle by simp
qed

text \<open>
  C2 as stated fails: the request is not sent before, or independently of, the end of
  the simulated steps. In the run for \<^verbatim>\<open>contract.pdf\<close> the step to 100 is effect number 12
  and the POST is effect number 13, the last one.
\<close>

theorem C2_counterexample:
  "trace (handleFormSubmission (Response 200 (BodyJson sample_result)) selected_state)
     = ProgressUpdate 0 ''Initializing...'' # step_effects
         @ [Fetch ''POST'' ''/'' [(''document'', FileValue contract_pdf)]]
   \<and> index_of is_final_step
        (trace (handleFormSubmission (Response 200 (BodyJson sample_result)) selected_state))
       = Some 12
   \<and> index_of is_analyze_request
        (trace (handleFormSubmission (Response 200 (BodyJson sample_result)) selected_state))
       = Some 13
   \<and> \<not> request_before_final_step
        (trace (handleFormSubmission (Response 200 (BodyJson sample_result)) selected_state))"
proof -
  have tr: "trace (handleFormSubmission (Response 200 (BodyJson sample_result)) selected_state)
     = ProgressUpdate 0 ''Initializing...'' # step_effects
         @ [Fetch ''POST'' ''/'' [(''document'', FileValue contract_pdf)]]"
    by (simp add: handleFormSubmission_def Let_def selected_state_eq initial_state_def
        trace_submit_settle fetch_def trace_simulateProcessingSteps submit_begin_def
        showProgress_def updateProgress_def analyze_response_def response_ok_def)
  show ?thesis
    unfolding tr
    by (simp add: step_effects_def is_final_step_def is_analyze_request_def
        request_before_final_step_def)
qed

subsection \<open>C6: the processing flag and the trailing timer\<close>



subsection \<open>C7: rendering a result\<close>

text \<open>
  C7. \<^verbatim>\<open>displayResults\<close> first clears the summary, the clause area and the question
  history, so what is shown afterwards depends on the new result only. The history is
  empty; the summary is the new summary in a paragraph, or nothing. For a non-empty
  clause list there is one accordion entry per clause, in order, each with its title
  (or "Clause N", N the 1-based position, when the title is missing or empty), its
  original and simplified text, an explanation section only when the explanation is
  present and not empty, and closed. For an empty or absent clause list there are no
  entries and the clause area holds the "no clauses identified" placeholder.
\<close>

theorem C7_results_rendering:
  "summaryContent (displayResults data s)
     = (case res_summary data of
          None \<Rightarrow> []
        | Some t \<Rightarrow> if t = [] then [] else ''<p>'' @ t @ ''</p>'')
   \<and> qaHistory (displayResults data s) = []
   \<and> (res_clauses data = None \<or> res_clauses data = Some [] \<longrightarrow>
        accordionItems (displayResults data s) = []
        \<and> clauseHtml (displayResults data s)
            = ''<p>No specific clauses identified in this document.</p>'')
   \<and> (\<forall>cs. res_clauses data = Some cs \<and> cs \<noteq> [] \<longrightarrow>
        clauseHtml (displayResults data s) = []
        \<and> length (accordionItems (displayResults data s)) = length cs
        \<and> (\<forall>i < length cs.
             item_title (accordionItems (displayResults data s) ! i)
               = (case clause_title (cs ! i) of
                    None \<Rightarrow> ''Clause '' @ string_of_nat (i + 1)
                  | Some t \<Rightarrow> if t = [] then ''Clause '' @ string_of_nat (i + 1) else t)
             \<and> item_original (accordionItems (displayResults data s) ! i)
                 = js_str (clause_original (cs ! i))
             \<and> item_simplified (accordionItems (displayResults data s) ! i)
                 = js_str (clause_simplified (cs ! i))
             \<and> item_explanation (accordionItems (displayResults data s) ! i)
                 = (case clause_explanation (cs ! i) of
                      None \<Rightarrow> None
                    | Some e \<Rightarrow> if e = [] then None else Some e)
             \<and> \<not> header_active (accordionItems (displayResults data s) ! i)))"
proof -
  have items: "item_title (accordionItems (displayResults data s) ! i)
               = (case clause_title (cs ! i) of
                    None \<Rightarrow> ''Clause '' @ string_of_nat (i + 1)
                  | Some t \<Rightarrow> if t = [] then ''Clause '' @ string_of_nat (i + 1) else t)
             \<and> item_original (accordionItems (displayResults data s) ! i)
                 = js_str (clause_original (cs ! i))
             \<and> item_simplified (accordionItems (displayResults data s) ! i)
                 = js_str (clause_simplified (cs ! i))
             \<and> item_explanation (accordionItems (displayResults data s) ! i)
                 = (case clause_explanation (cs ! i) of
                      None \<Rightarrow> None
                    | Some e \<Rightarrow> if e = [] then None else Some e)
             \<and> \<not> header_active (accordionItems (displayResults data s) ! i)"
    if "res_clauses data = Some cs" and "cs \<noteq> []" and "i < length cs" for cs i
    using that
    by (simp add: displayResults_clauses nth_enumerate_eq createAccordionItem_def
        split: option.splits)
  have len: "clauseHtml (displayResults data s) = []
        \<and> length (accordionItems (displayResults data s)) = length cs"
    if "res_clauses data = Some cs" and "cs \<noteq> []" for cs
    using that by (simp add: displayResults_clauses)
  show ?thesis
    using displayResults_summary [of data s] displayResults_qa [of data s]
      displayResults_no_clauses [of data s] items len
    unfolding noClausesHtml_def by blast
qed

theorem C7_results_rendering_witness:
  "res_clauses sample_result = Some [term_clause, untitled_clause]
   \<and> summaryContent (displayResults sample_result stale_state) = ''<p>S</p>''
   \<and> qaHistory (displayResults sample_result stale_state) = []
   \<and> clauseHtml (displayResults sample_result stale_state) = []
   \<and> length (accordionItems (displayResults sample_result stale_state)) = 2
   \<and> item_title (accordionItems (displayResults sample_result stale_state) ! 0) = ''Term''
   \<and> item_explanation (accordionItems (displayResults sample_result stale_state) ! 0) = None
   \<and> item_title (accordionItems (displayResults sample_result stale_state) ! 1) = ''Clause 2''
   \<and> item_explanation (accordionItems (displayResults sample_result stale_state) ! 1)
       = Some ''E2''
   \<and> res_clauses empty_result = None
   \<and> summaryContent (displayResults empty_result stale_state) = []
   \<and> accordionItems (displayResults empty_result stale_state) = []
   \<and> clauseHtml (displayResults empty_result stale_state)
       = ''<p>No specific clauses identified in this document.</p>''"
proof -
  note full = C7_results_rendering [of sample_result stale_state]
  note none = C7_results_rendering [of empty_result stale_state]
  have cs: "res_clauses sample_result = Some [term_clause, untitled_clause]"
    by (simp add: sample_result_def)
  from full cs have entries:
    "\<forall>i < length [term_clause, untitled_clause].
       item_title (accordionItems (displayResults sample_result stale_state) ! i)
         = (case clause_title ([term_clause, untitled_clause] ! i) of
              None \<Rightarrow> ''Clause '' @ string_of_nat (i + 1)
            | Some t \<Rightarrow> if t = [] then ''Clause '' @ string_of_nat (i + 1) else t)
       \<and> item_explanation (accordionItems (displayResults sample_result stale_state) ! i)
           = (case clause_explanation ([term_clause, untitled_clause] ! i) of
                None \<Rightarrow> None
              | Some e \<Rightarrow> if e = [] then None else Some e)"
    by simp
  from entries have first:
    "item_title (accordionItems (displayResults sample_result stale_state) ! 0) = ''Term''
     \<and> item_explanation (accordionItems (displayResults sample_result stale_state) ! 0) = None"
    by (simp add: term_clause_def)
  from entries have "1 < length [term_clause, untitled_clause] \<longrightarrow>
     item_title (accordionItems (displayResults sample_result stale_state) ! 1)
       = (case clause_title ([term_clause, untitled_clause] ! 1) of
            None \<Rightarrow> ''Clause '' @ string_of_nat (1 + 1)
          | Some t \<Rightarrow> if t = [] then ''Clause '' @ string_of_nat (1 + 1) else t)
     \<and> item_explanation (accordionItems (displayResults sample_result stale_state) ! 1)
         = (case clause_explanation ([term_clause, untitled_clause] ! 1) of
              None \<Rightarrow> None
            | Some e \<Rightarrow> if e = [] then None else Some e)"
    by blast
  then have second:
    "item_title (accordionItems (displayResults sample_result stale_state) ! 1) = ''Clause 2''
     \<and> item_explanation (accordionItems (displayResults sample_result stale_state) ! 1)
         = Some ''E2''"
    by (simp add: untitled_clause_def string_of_nat.simps digit_char_def)
  from full cs have shape:
    "summaryContent (displayResults sample_result stale_state) = ''<p>S</p>''
     \<and> qaHistory (displayResults sample_result stale_state) = []
     \<and> clauseHtml (displayResults sample_result stale_state) = []
     \<and> length (accordionItems (displayResults sample_result stale_state)) = 2"
    by (simp add: sample_result_def)
  from none have placeholder:
    "res_clauses empty_result = None
     \<and> summaryContent (displayResults empty_result stale_state) = []
     \<and> accordionItems (displayResults empty_result stale_state) = []
     \<and> clauseHtml (displayResults empty_result stale_state)
         = ''<p>No specific clauses identified in this document.</p>''"
    by (simp add: empty_result_def)
  from cs shape first second placeholder show ?thesis by simp
qed

subsection \<open>C8: the accordion\<close>



end
